theory Spec2Isabelle
  imports Main "HOL-Library.Multiset" "HOL-Library.Product_Lexorder"
begin

section \<open>Data model (models.py, schemas.py)\<close>

text \<open>
  A Python \<open>date\<close> is modelled by its proleptic Gregorian ordinal (\<open>date.toordinal()\<close>):
  ordinal 1 is 0001-01-01 and \<open>date.max\<close> (9999-12-31) is ordinal 3652059. The map from
  dates to ordinals is an order isomorphism, and so is \<open>isoformat()\<close> on four-digit years,
  so comparing dates, ordinals or ISO strings gives the same order.
\<close>

type_synonym date = int

definition date_min :: date where
  "date_min = 1"

definition date_max :: date where
  "date_max = 3652059"

datatype daytime =
    Time (hour: nat) (minute: nat) (second: nat) (microsecond: nat)

datatype error_context =
    Turn daytime
  | Evening

datatype detail =
    DuplicateBooking
  | NotEnoughRoom error_context int
  | FullyBooked error_context
  | InvalidCredentials
  | EventNotFound
  | InvalidToken
  | AdminPasswordMissing

datatype failure =
    HTTPException nat detail
  | IntegrityError
  | DataError
  | OverflowError

text \<open>
  \<open>daytime\<close> is Python's \<open>datetime.time\<close> (naive). The constructors of \<open>detail\<close> stand
  for the message strings of main.py:
  \<^item> \<open>DuplicateBooking\<close>: line 289, "Hai gia una prenotazione per questo specifico evento
    con la stessa email.";
  \<^item> \<open>NotEnoughRoom c n\<close>: line 319, "Spiacenti, non c'e abbastanza posto {c}. Posti
    rimasti: {n}.";
  \<^item> \<open>FullyBooked c\<close>: line 321, "Spiacenti, siamo al completo {c}.";
  \<^item> \<open>Turn t\<close>: line 302, "per il turno delle {t:%H:%M}"; \<open>Evening\<close>: line 311,
    "per la serata";
  \<^item> \<open>InvalidCredentials\<close>: "Credenziali non valide"; \<open>EventNotFound\<close>: "Evento non
    trovato"; \<open>InvalidToken\<close>: line 351; \<open>AdminPasswordMissing\<close>: line 392.
  \<open>IntegrityError\<close> and \<open>DataError\<close> are the database driver's exceptions, which no handler
  catches; \<open>OverflowError\<close> is raised by date arithmetic beyond \<open>date.max\<close>.
\<close>

definition add_days :: "date \<Rightarrow> nat \<Rightarrow> failure + date" where
  \<comment> \<open>\<open>d + timedelta(days=n)\<close>\<close>
  "add_days d n =
     (if date_min \<le> d + int n \<and> d + int n \<le> date_max then Inr (d + int n)
      else Inl OverflowError)"

definition weekday :: "date \<Rightarrow> int" where
  \<comment> \<open>\<open>date.weekday()\<close>: Monday is 0, Sunday is 6\<close>
  "weekday d = (d + 6) mod 7"

definition time_key :: "daytime \<Rightarrow> nat \<times> nat \<times> nat \<times> nat" where
  \<comment> \<open>the order of \<open>time.isoformat()\<close> strings, HH:MM:SS[.ffffff], is the lexicographic one\<close>
  "time_key t = (hour t, minute t, second t, microsecond t)"

record special_event =
  se_id :: int
  se_display_name :: string
  se_booking_date :: date
  se_booking_time :: "daytime option"
  se_is_closed :: bool

record booking =
  b_id :: int
  b_event_id :: "int option"
  b_name :: string
  b_email :: string
  b_phone :: string
  b_booking_date :: date
  b_booking_time :: "daytime option"
  b_guests :: int
  b_cancellation_token :: string
  b_notes :: "string option"

record booking_create =
  bc_event_id :: "int option"
  bc_name :: string
  bc_email :: string
  bc_phone :: string
  bc_booking_date :: date
  bc_booking_time :: "daytime option"
  bc_guests :: int
  bc_notes :: "string option"

record special_event_create =
  sc_display_name :: string
  sc_booking_date :: date
  sc_booking_time :: "daytime option"
  sc_is_closed :: bool

record db =
  bookings :: "booking list"
  special_events :: "special_event list"

section \<open>SQL conditions\<close>

text \<open>
  A WHERE clause keeps a row when its condition is true; a comparison with NULL is neither
  true nor false. Conditions are therefore \<open>bool option\<close>, \<open>None\<close> being SQL's unknown.
  SQLAlchemy renders \<open>column == value\<close> as \<open>column IS NULL\<close> when the Python value is
  \<open>None\<close>, \<open>column.in_(list)\<close> as \<open>column IN (...)\<close>, and \<open>~\<close> as NOT.
\<close>

definition sql_eq :: "'a option \<Rightarrow> 'a option \<Rightarrow> bool option" where
  "sql_eq column v =
     (case v of
        None \<Rightarrow> Some (column = None)
      | Some y \<Rightarrow> (case column of None \<Rightarrow> None | Some x \<Rightarrow> Some (x = y)))"

definition sql_in :: "'a option \<Rightarrow> 'a list \<Rightarrow> bool option" where
  "sql_in column vs = (case column of None \<Rightarrow> None | Some x \<Rightarrow> Some (x \<in> set vs))"

definition sql_not :: "bool option \<Rightarrow> bool option" where
  "sql_not c = map_option Not c"

definition sql_and :: "bool option \<Rightarrow> bool option \<Rightarrow> bool option" where
  "sql_and c d =
     (if c = Some False \<or> d = Some False then Some False
      else if c = Some True \<and> d = Some True then Some True
      else None)"

definition sql_where :: "bool option \<Rightarrow> bool" where
  "sql_where c = (c = Some True)"

section \<open>Booking admission (main.py, create\_booking)\<close>

definition MAX_GUESTS :: int where
  "MAX_GUESTS = 25"

definition BRUNCH_SLOTS :: "daytime list" where
  "BRUNCH_SLOTS = [Time 12 0 0 0, Time 13 30 0 0]"

definition truthy :: "int option \<Rightarrow> bool" where
  \<comment> \<open>Python truth value of an \<open>Optional[int]\<close>: \<open>None\<close> and 0 are false\<close>
  "truthy x = (case x of None \<Rightarrow> False | Some k \<Rightarrow> k \<noteq> 0)"

definition duplicate_condition :: "booking_create \<Rightarrow> booking \<Rightarrow> bool option" where
  \<comment> \<open>lines 277-284\<close>
  "duplicate_condition r b =
     sql_and (sql_eq (Some (b_email b)) (Some (bc_email r)))
       (if truthy (bc_event_id r) then sql_eq (b_event_id b) (bc_event_id r)
        else sql_and (sql_eq (Some (b_booking_date b)) (Some (bc_booking_date r)))
               (sql_eq (b_booking_time b) (bc_booking_time r)))"

definition existing_booking :: "db \<Rightarrow> booking_create \<Rightarrow> booking option" where
  \<comment> \<open>line 286, \<open>query.first()\<close>\<close>
  "existing_booking s r = find (\<lambda>b. sql_where (duplicate_condition r b)) (bookings s)"

definition in_brunch_slots :: "daytime option \<Rightarrow> bool" where
  \<comment> \<open>line 296, Python's \<open>booking.booking_time in BRUNCH_SLOTS\<close>\<close>
  "in_brunch_slots t = (case t of None \<Rightarrow> False | Some x \<Rightarrow> x \<in> set BRUNCH_SLOTS)"

definition bucket_condition :: "booking_create \<Rightarrow> booking \<Rightarrow> bool option" where
  \<comment> \<open>the filters of lines 297-300 and 306-309\<close>
  "bucket_condition r b =
     (if in_brunch_slots (bc_booking_time r)
      then sql_and (sql_eq (Some (b_booking_date b)) (Some (bc_booking_date r)))
             (sql_eq (b_booking_time b) (bc_booking_time r))
      else sql_and (sql_eq (Some (b_booking_date b)) (Some (bc_booking_date r)))
             (sql_not (sql_in (b_booking_time b) BRUNCH_SLOTS)))"

definition booked_guests :: "db \<Rightarrow> booking_create \<Rightarrow> int" where
  \<comment> \<open>\<open>func.sum(Booking.guests)\<close> over the filtered rows, \<open>or 0\<close> when there is none\<close>
  "booked_guests s r =
     sum_list (map b_guests (filter (\<lambda>b. sql_where (bucket_condition r b)) (bookings s)))"

definition error_context_of :: "booking_create \<Rightarrow> error_context" where
  "error_context_of r =
     (case bc_booking_time r of
        None \<Rightarrow> Evening
      | Some t \<Rightarrow> if t \<in> set BRUNCH_SLOTS then Turn t else Evening)"

definition capacity_error :: "db \<Rightarrow> booking_create \<Rightarrow> failure option" where
  \<comment> \<open>lines 313-322\<close>
  "capacity_error s r =
     (let total_guests_if_booked = booked_guests s r + bc_guests r in
      if total_guests_if_booked > MAX_GUESTS then
        (let available_slots = MAX_GUESTS - booked_guests s r in
         Some (HTTPException 400
           (if available_slots \<le> 0 then FullyBooked (error_context_of r)
            else NotEnoughRoom (error_context_of r) available_slots)))
      else None)"

definition new_booking :: "booking_create \<Rightarrow> int \<Rightarrow> string \<Rightarrow> booking" where
  \<comment> \<open>line 325, \<open>models.Booking(**booking.model_dump())\<close>, with the primary key assigned by
      the database and the token drawn by \<open>uuid.uuid4()\<close>\<close>
  "new_booking r new_id token =
     \<lparr> b_id = new_id, b_event_id = bc_event_id r, b_name = bc_name r, b_email = bc_email r,
       b_phone = bc_phone r, b_booking_date = bc_booking_date r,
       b_booking_time = bc_booking_time r, b_guests = bc_guests r,
       b_cancellation_token = token, b_notes = bc_notes r \<rparr>"

definition booking_constraints :: "db \<Rightarrow> booking \<Rightarrow> bool" where
  \<comment> \<open>the constraints models.py declares on table bookings: primary key \<open>id\<close>,
      \<open>unique=True\<close> on \<open>email\<close> and on \<open>cancellation_token\<close>, and the foreign key of
      \<open>event_id\<close> into \<open>special_events.id\<close>\<close>
  "booking_constraints s b =
     (b_id b \<notin> set (map b_id (bookings s)) \<and>
      b_email b \<notin> set (map b_email (bookings s)) \<and>
      b_cancellation_token b \<notin> set (map b_cancellation_token (bookings s)) \<and>
      (case b_event_id b of None \<Rightarrow> True
       | Some k \<Rightarrow> k \<in> set (map se_id (special_events s))))"

definition insert_booking :: "db \<Rightarrow> booking \<Rightarrow> failure + db" where
  \<comment> \<open>lines 328-330, \<open>db.add\<close> and \<open>db.commit\<close>\<close>
  "insert_booking s b =
     (if booking_constraints s b then Inr (s\<lparr>bookings := bookings s @ [b]\<rparr>)
      else Inl IntegrityError)"

definition create_booking :: "booking_create \<Rightarrow> int \<Rightarrow> string \<Rightarrow> db \<Rightarrow> failure + booking \<times> db" where
  "create_booking r new_id token s =
     (case existing_booking s r of
        Some b \<Rightarrow> Inl (HTTPException 400 DuplicateBooking)
      | None \<Rightarrow>
          (case capacity_error s r of
             Some e \<Rightarrow> Inl e
           | None \<Rightarrow>
               (case insert_booking s (new_booking r new_id token) of
                  Inl e \<Rightarrow> Inl e
                | Inr s' \<Rightarrow> Inr (new_booking r new_id token, s'))))"

text \<open>
  The confirmation e-mail (lines 332-336) is scheduled after the commit and cannot change
  the outcome; it is outside the model.
\<close>

section \<open>Cancellation (main.py, cancel\_booking)\<close>

definition delete_booking :: "booking \<Rightarrow> db \<Rightarrow> db" where
  \<comment> \<open>\<open>db.delete(obj)\<close> on a Booking: DELETE FROM bookings WHERE id = obj.id\<close>
  "delete_booking b s = s\<lparr>bookings := filter (\<lambda>x. b_id x \<noteq> b_id b) (bookings s)\<rparr>"

definition cancel_booking :: "string \<Rightarrow> db \<Rightarrow> failure + db" where
  \<comment> \<open>the success value is the constant message of line 356\<close>
  "cancel_booking token s =
     (case find (\<lambda>b. sql_where (sql_eq (Some (b_cancellation_token b)) (Some token)))
             (bookings s) of
        None \<Rightarrow> Inl (HTTPException 404 InvalidToken)
      | Some booking_to_cancel \<Rightarrow> Inr (delete_booking booking_to_cancel s))"

section \<open>Administration (main.py)\<close>

type_synonym credentials = "string \<times> string"

definition username :: "credentials \<Rightarrow> string" where
  "username c = fst c"

definition password :: "credentials \<Rightarrow> string" where
  "password c = snd c"

text \<open>
  \<open>ADMIN_PASSWORD\<close> is \<open>os.getenv("ADMIN_PASSWORD")\<close>: \<open>None\<close> when the variable is absent.
  A password of the request is a string, so it never equals \<open>None\<close>.
\<close>

definition wrong_credentials :: "string option \<Rightarrow> credentials \<Rightarrow> bool" where
  \<comment> \<open>\<open>credentials.username != "admin" or credentials.password != ADMIN_PASSWORD\<close>\<close>
  "wrong_credentials ADMIN_PASSWORD c =
     (username c \<noteq> ''admin'' \<or> Some (password c) \<noteq> ADMIN_PASSWORD)"

definition not_configured :: "string option \<Rightarrow> bool" where
  \<comment> \<open>\<open>not ADMIN_PASSWORD\<close>: absent or empty\<close>
  "not_configured ADMIN_PASSWORD = (ADMIN_PASSWORD = None \<or> ADMIN_PASSWORD = Some [])"

definition unauthorized :: failure where
  "unauthorized = HTTPException 401 InvalidCredentials"

definition new_special_event :: "special_event_create \<Rightarrow> int \<Rightarrow> special_event" where
  "new_special_event ev new_id =
     \<lparr> se_id = new_id, se_display_name = sc_display_name ev,
       se_booking_date = sc_booking_date ev, se_booking_time = sc_booking_time ev,
       se_is_closed = sc_is_closed ev \<rparr>"

definition create_special_event ::
  "string option \<Rightarrow> credentials \<Rightarrow> special_event_create \<Rightarrow> int \<Rightarrow> db \<Rightarrow> failure + special_event \<times> db" where
  \<comment> \<open>lines 110-123; \<open>new_id\<close> is the primary key the database assigns\<close>
  "create_special_event ADMIN_PASSWORD c ev new_id s =
     (if wrong_credentials ADMIN_PASSWORD c then Inl unauthorized
      else if new_id \<in> set (map se_id (special_events s)) then Inl IntegrityError
      else Inr (new_special_event ev new_id,
                s\<lparr>special_events := special_events s @ [new_special_event ev new_id]\<rparr>))"

definition nulls_last :: "daytime option \<Rightarrow> nat \<times> nat \<times> nat \<times> nat \<times> nat" where
  \<comment> \<open>ascending order of a nullable time column: NULL sorts after every value\<close>
  "nulls_last t = (case t of None \<Rightarrow> (1, 0, 0, 0, 0) | Some x \<Rightarrow> (0, time_key x))"

definition read_special_events ::
  "string option \<Rightarrow> credentials \<Rightarrow> db \<Rightarrow> failure + special_event list" where
  \<comment> \<open>lines 126-135\<close>
  "read_special_events ADMIN_PASSWORD c s =
     (if wrong_credentials ADMIN_PASSWORD c then Inl unauthorized
      else Inr (sort_key (\<lambda>e. (se_booking_date e, nulls_last (se_booking_time e)))
                  (special_events s)))"

definition delete_special_event ::
  "string option \<Rightarrow> credentials \<Rightarrow> int \<Rightarrow> db \<Rightarrow> failure + special_event \<times> db" where
  \<comment> \<open>lines 138-156\<close>
  "delete_special_event ADMIN_PASSWORD c event_id s =
     (if wrong_credentials ADMIN_PASSWORD c then Inl unauthorized
      else
        (case find (\<lambda>e. sql_where (sql_eq (Some (se_id e)) (Some event_id)))
                (special_events s) of
           None \<Rightarrow> Inl (HTTPException 404 EventNotFound)
         | Some event \<Rightarrow>
             Inr (event,
                  \<lparr> bookings =
                      filter (\<lambda>b. \<not> sql_where (sql_eq (b_event_id b) (Some event_id)))
                        (bookings s),
                    special_events =
                      filter (\<lambda>e. se_id e \<noteq> se_id event) (special_events s) \<rparr>)))"

definition admin_filter ::
  "date option \<Rightarrow> daytime option \<Rightarrow> int option \<Rightarrow> booking \<Rightarrow> bool" where
  \<comment> \<open>lines 406-411 and 454-465; a \<open>date\<close> or \<open>time\<close> object is always true\<close>
  "admin_filter event_date event_time event_id b =
     (if truthy event_id then sql_where (sql_eq (b_event_id b) event_id)
      else if event_date \<noteq> None \<and> event_time \<noteq> None
      then sql_where (sql_and (sql_eq (Some (b_booking_date b)) event_date)
                        (sql_eq (b_booking_time b) event_time))
      else True)"

definition booking_order :: "booking \<Rightarrow> date \<times> nat \<times> nat \<times> nat \<times> nat \<times> nat" where
  "booking_order b = (b_booking_date b, nulls_last (b_booking_time b))"

text \<open>
  SQL leaves the order of rows with equal keys open; the model keeps them in insertion
  order for ascending and in reverse insertion order for descending sorts. A negative
  OFFSET or LIMIT is rejected by the database.
\<close>

definition get_all_bookings ::
  "string option \<Rightarrow> credentials \<Rightarrow> db \<Rightarrow> int \<Rightarrow> int \<Rightarrow> date option \<Rightarrow> daytime option \<Rightarrow> int option
     \<Rightarrow> failure + nat \<times> booking list" where
  \<comment> \<open>lines 389-425; the result is the pair of \<open>total\<close> and \<open>bookings\<close>\<close>
  "get_all_bookings ADMIN_PASSWORD c s skip limit event_date event_time event_id =
     (if not_configured ADMIN_PASSWORD then Inl (HTTPException 500 AdminPasswordMissing)
      else if wrong_credentials ADMIN_PASSWORD c then Inl unauthorized
      else
        (let query = filter (admin_filter event_date event_time event_id) (bookings s);
             total_bookings = length query
         in if skip < 0 \<or> limit < 0 then Inl DataError
            else Inr (total_bookings,
                      take (nat limit) (drop (nat skip) (rev (sort_key booking_order query))))))"

datatype pdf_title =
    AllBookingsTitle
  | EventTitle string
  | BrunchTitle date daytime

record pdf_row =
  r_id :: int
  r_name :: string
  r_email :: string
  r_date :: date
  r_time :: "daytime option"
  r_guests :: int

definition pdf_row_of :: "booking \<Rightarrow> pdf_row" where
  \<comment> \<open>lines 501-508\<close>
  "pdf_row_of b =
     \<lparr> r_id = b_id b, r_name = take 20 (b_name b), r_email = take 25 (b_email b),
       r_date = b_booking_date b, r_time = b_booking_time b, r_guests = b_guests b \<rparr>"

definition export_title :: "db \<Rightarrow> date option \<Rightarrow> daytime option \<Rightarrow> int option \<Rightarrow> pdf_title" where
  \<comment> \<open>lines 449-468; the file name is built from the same three cases\<close>
  "export_title s event_date event_time event_id =
     (if truthy event_id then
        (case find (\<lambda>e. sql_where (sql_eq (Some (se_id e)) event_id)) (special_events s) of
           Some event \<Rightarrow> EventTitle (se_display_name event)
         | None \<Rightarrow> AllBookingsTitle)
      else
        (case (event_date, event_time) of
           (Some d, Some t) \<Rightarrow> BrunchTitle d t
         | _ \<Rightarrow> AllBookingsTitle))"

definition export_bookings_to_pdf ::
  "string option \<Rightarrow> credentials \<Rightarrow> db \<Rightarrow> date option \<Rightarrow> daytime option \<Rightarrow> int option \<Rightarrow> int
     \<Rightarrow> failure + pdf_title \<times> pdf_row list" where
  \<comment> \<open>lines 440-518: the title and the table rows; drawing and page breaks are not modelled\<close>
  "export_bookings_to_pdf ADMIN_PASSWORD c s event_date event_time event_id limit =
     (if not_configured ADMIN_PASSWORD \<or> wrong_credentials ADMIN_PASSWORD c
      then Inl unauthorized
      else if limit < 0 then Inl DataError
      else Inr (export_title s event_date event_time event_id,
                map pdf_row_of
                  (take (nat limit)
                     (sort_key booking_order
                        (filter (admin_filter event_date event_time event_id) (bookings s))))))"

section \<open>Event catalog (main.py, get\_bookable\_events)\<close>

datatype bookable_event =
    SpecialEntry int string date "daytime option"
  | BrunchEntry date "daytime list"

text \<open>
  \<open>SpecialEntry i n d t\<close> is the dictionary with type "special", id \<open>i\<close>, display name
  "{n} - {d:%d/%m}", booking date \<open>d\<close> and booking time \<open>t\<close>. \<open>BrunchEntry d slots\<close> is the
  dictionary with type "brunch", display name "Brunch - {d:%d/%m}", booking date \<open>d\<close>,
  the available slots, id \<open>None\<close> and no booking time.
\<close>

fun entry_id :: "bookable_event \<Rightarrow> int option" where
  "entry_id (SpecialEntry i n d t) = Some i"
| "entry_id (BrunchEntry d slots) = None"

fun entry_date :: "bookable_event \<Rightarrow> date" where
  "entry_date (SpecialEntry i n d t) = d"
| "entry_date (BrunchEntry d slots) = d"

fun is_brunch :: "bookable_event \<Rightarrow> bool" where
  "is_brunch (SpecialEntry i n d t) = False"
| "is_brunch (BrunchEntry d slots) = True"

definition special_entry :: "special_event \<Rightarrow> bookable_event" where
  \<comment> \<open>lines 68-74\<close>
  "special_entry event =
     SpecialEntry (se_id event) (se_display_name event) (se_booking_date event)
       (se_booking_time event)"

definition brunch_entry :: "date \<Rightarrow> bookable_event" where
  \<comment> \<open>lines 84-90\<close>
  "brunch_entry check_date = BrunchEntry check_date [Time 12 0 0 0, Time 13 30 0 0]"

function brunch_loop ::
  "date \<Rightarrow> nat \<Rightarrow> nat \<Rightarrow> bookable_event list \<Rightarrow> failure + bookable_event list" where
  "brunch_loop today sundays_found day_offset events =
     (if sundays_found < 8 then
        (case add_days today day_offset of
           Inl e \<Rightarrow> Inl e
         | Inr check_date \<Rightarrow>
             if weekday check_date = 6
             then brunch_loop today (sundays_found + 1) (day_offset + 1)
                    (events @ [brunch_entry check_date])
             else brunch_loop today sundays_found (day_offset + 1) events)
      else Inr events)"
  by pat_completeness auto
termination
  by (relation "measure (\<lambda>(today, sundays_found, day_offset, events).
                   nat (date_max + 1 - today - int day_offset))")
     (auto simp: add_days_def split: if_splits)

fun sort_key_event :: "bookable_event \<Rightarrow> date \<times> nat \<times> nat \<times> nat \<times> nat" where
  \<comment> \<open>lines 95-104; the default '00:00:00' is the ISO string of midnight\<close>
  "sort_key_event (SpecialEntry i n d t) =
     (d, case t of None \<Rightarrow> time_key (Time 0 0 0 0) | Some x \<Rightarrow> time_key x)"
| "sort_key_event (BrunchEntry d slots) =
     (d, case slots of [] \<Rightarrow> time_key (Time 0 0 0 0) | x # _ \<Rightarrow> time_key x)"

definition get_bookable_events :: "date \<Rightarrow> db \<Rightarrow> failure + bookable_event list" where
  "get_bookable_events today s =
     (case brunch_loop today 0 0
             (map special_entry
                (filter (\<lambda>event. se_booking_date event \<ge> today) (special_events s))) of
        Inl e \<Rightarrow> Inl e
      | Inr events \<Rightarrow> Inr (sort_key sort_key_event events))"

section \<open>Notions used to state the properties\<close>

definition next_sunday :: "date \<Rightarrow> date" where
  \<comment> \<open>the first Sunday on or after a date\<close>
  "next_sunday d = d + (- d) mod 7"

definition brunches :: "date \<Rightarrow> nat \<Rightarrow> bookable_event list" where
  \<comment> \<open>the brunch entries of \<open>n\<close> consecutive Sundays\<close>
  "brunches first n = map (\<lambda>k. brunch_entry (first + 7 * int k)) [0..<n]"

definition without_closed_flags :: "db \<Rightarrow> db" where
  \<comment> \<open>the state with every \<open>is_closed\<close> reset; two states that differ only in closed flags
      have the same image\<close>
  "without_closed_flags s =
     s\<lparr>special_events := map (\<lambda>e. e\<lparr>se_is_closed := False\<rparr>) (special_events s)\<rparr>"

definition outcome :: "failure + 'a \<times> db \<Rightarrow> failure + 'a" where
  \<comment> \<open>what the caller sees: the error, or the returned record\<close>
  "outcome res = map_sum id fst res"

definition status_code :: "failure \<Rightarrow> nat" where
  \<comment> \<open>the HTTP status of a failure; an exception no handler catches gives 500\<close>
  "status_code e = (case e of HTTPException code d \<Rightarrow> code | _ \<Rightarrow> 500)"

definition server_error :: "failure + 'a \<Rightarrow> bool" where
  "server_error res = (case res of Inl e \<Rightarrow> status_code e = 500 | Inr x \<Rightarrow> False)"

section \<open>Example data\<close>

definition request :: "string \<Rightarrow> int option \<Rightarrow> date \<Rightarrow> daytime option \<Rightarrow> int \<Rightarrow> booking_create" where
  "request email event_id d t guests =
     \<lparr> bc_event_id = event_id, bc_name = ''Guest'', bc_email = email, bc_phone = ''010'',
       bc_booking_date = d, bc_booking_time = t, bc_guests = guests, bc_notes = None \<rparr>"

definition wednesday :: date where
  \<comment> \<open>2026-11-04\<close>
  "wednesday = 739924"

definition sunday :: date where
  \<comment> \<open>2026-11-08\<close>
  "sunday = 739928"

definition brunch_db :: db where
  \<comment> \<open>twenty guests in the 12:00 turn of a Sunday\<close>
  "brunch_db =
     \<lparr> bookings = [new_booking (request ''bea@example.org'' None sunday (Some (Time 12 0 0 0)) 20)
                      1 ''token-1''],
       special_events = [] \<rparr>"

definition evening_db :: db where
  \<comment> \<open>twenty guests on an evening, booked without a time\<close>
  "evening_db =
     \<lparr> bookings = [new_booking (request ''bea@example.org'' None sunday None 20) 1 ''token-1''],
       special_events = [] \<rparr>"

definition concert :: special_event where
  "concert = \<lparr> se_id = 1, se_display_name = ''Concert'', se_booking_date = 739930,
               se_booking_time = Some (Time 21 0 0 0), se_is_closed = False \<rparr>"

definition tasting :: special_event where
  "tasting = \<lparr> se_id = 2, se_display_name = ''Tasting'', se_booking_date = 739935,
               se_booking_time = None, se_is_closed = False \<rparr>"

definition events_db :: db where
  \<comment> \<open>two special events, one booking for the first and one brunch booking\<close>
  "events_db =
     \<lparr> bookings =
         [new_booking (request ''ada@example.org'' (Some 1) 739930 (Some (Time 21 0 0 0)) 4)
            1 ''token-1'',
          new_booking (request ''bea@example.org'' None sunday (Some (Time 12 0 0 0)) 2)
            2 ''token-2''],
       special_events = [concert, tasting] \<rparr>"

definition admin :: credentials where
  "admin = (''admin'', ''secret'')"

definition closed_tasting_db :: db where
  \<comment> \<open>\<open>events_db\<close> with the second event closed\<close>
  "closed_tasting_db =
     \<lparr> bookings =
         [\<lparr> b_id = 1, b_event_id = Some 1, b_name = ''Guest'', b_email = ''ada@example.org'',
             b_phone = ''010'', b_booking_date = 739930,
             b_booking_time = Some (Time 21 0 0 0), b_guests = 4,
             b_cancellation_token = ''token-1'', b_notes = None \<rparr>,
          \<lparr> b_id = 2, b_event_id = None, b_name = ''Guest'', b_email = ''bea@example.org'',
             b_phone = ''010'', b_booking_date = 739928,
             b_booking_time = Some (Time 12 0 0 0), b_guests = 2,
             b_cancellation_token = ''token-2'', b_notes = None \<rparr>],
       special_events =
         [\<lparr> se_id = 1, se_display_name = ''Concert'', se_booking_date = 739930,
             se_booking_time = Some (Time 21 0 0 0), se_is_closed = False \<rparr>,
          \<lparr> se_id = 2, se_display_name = ''Tasting'', se_booking_date = 739935,
             se_booking_time = None, se_is_closed = True \<rparr>] \<rparr>"

section \<open>Booking admission: capacity\<close>





lemmas admission_defs =
  existing_booking_def duplicate_condition_def bucket_condition_def booked_guests_def
  in_brunch_slots_def error_context_of_def capacity_error_def booking_constraints_def
  insert_booking_def new_booking_def request_def truthy_def
  sql_eq_def sql_in_def sql_not_def sql_and_def sql_where_def MAX_GUESTS_def BRUNCH_SLOTS_def


text \<open>
  The example of the specification: with 20 guests in the bucket a request for 5 is
  stored, and a following request for 1 is rejected as fully booked.
\<close>

lemma capacity_example:
  "create_booking (request ''ada@example.org'' None sunday (Some (Time 12 0 0 0)) 5)
       2 ''token-2'' brunch_db
     = Inr (new_booking (request ''ada@example.org'' None sunday (Some (Time 12 0 0 0)) 5)
              2 ''token-2'',
            brunch_db\<lparr>bookings := bookings brunch_db @
              [new_booking (request ''ada@example.org'' None sunday (Some (Time 12 0 0 0)) 5)
                 2 ''token-2'']\<rparr>)
   \<and> create_booking (request ''cleo@example.org'' None sunday (Some (Time 12 0 0 0)) 1)
       3 ''token-3''
       (brunch_db\<lparr>bookings := bookings brunch_db @
              [new_booking (request ''ada@example.org'' None sunday (Some (Time 12 0 0 0)) 5)
                 2 ''token-2'']\<rparr>)
     = Inl (HTTPException 400 (FullyBooked (Turn (Time 12 0 0 0))))"
  by (simp add: create_booking_def brunch_db_def admission_defs)

section \<open>Booking admission: the evening bucket\<close>

lemma brunch_bucket:
  assumes "in_brunch_slots (bc_booking_time r)"
  shows "sql_where (bucket_condition r b) \<longleftrightarrow>
           b_booking_date b = bc_booking_date r \<and> b_booking_time b = bc_booking_time r"
  using assms
  by (auto simp: bucket_condition_def sql_where_def sql_and_def sql_eq_def in_brunch_slots_def
        split: option.splits)

lemma evening_bucket:
  assumes "\<not> in_brunch_slots (bc_booking_time r)"
  shows "sql_where (bucket_condition r b) \<longleftrightarrow>
           b_booking_date b = bc_booking_date r \<and>
           (\<exists>t. b_booking_time b = Some t \<and> t \<notin> set BRUNCH_SLOTS)"
  using assms
  by (auto simp: bucket_condition_def sql_where_def sql_and_def sql_eq_def sql_not_def
        sql_in_def split: option.splits)

lemma null_time_outside_every_bucket:
  "b_booking_time b = None \<Longrightarrow> \<not> sql_where (bucket_condition r b)"
  by (cases "in_brunch_slots (bc_booking_time r)")
     (auto simp: brunch_bucket evening_bucket in_brunch_slots_def)

text \<open>
  Claim C2. For a request outside the two brunch slots the sum is taken over the bookings
  of the same date whose time is not a brunch slot, and a booking without a time should
  be among them. The condition of line 308 is \<open>booking_time NOT IN (...)\<close>, which is unknown
  for a NULL time, so such a booking is left out: with 20 guests booked without a time, the
  sum seen by a request for 10 more on that date is 0 and the request is stored.
\<close>

theorem null_time_booking_not_counted:
  "booked_guests evening_db (request ''ada@example.org'' None sunday None 10) = 0
   \<and> sum_list (map b_guests (bookings evening_db)) = 20
   \<and> create_booking (request ''ada@example.org'' None sunday None 10) 2 ''token-2'' evening_db
     = Inr (new_booking (request ''ada@example.org'' None sunday None 10) 2 ''token-2'',
            evening_db\<lparr>bookings := bookings evening_db @
              [new_booking (request ''ada@example.org'' None sunday None 10) 2 ''token-2'']\<rparr>)"
  by (simp add: create_booking_def evening_db_def admission_defs)

section \<open>Booking admission: duplicates and the unique e-mail column\<close>

lemma duplicate_iff:
  "existing_booking s r \<noteq> None \<longleftrightarrow>
     (\<exists>b\<in>set (bookings s). b_email b = bc_email r \<and>
        (if truthy (bc_event_id r) then b_event_id b = bc_event_id r
         else b_booking_date b = bc_booking_date r \<and> b_booking_time b = bc_booking_time r))"
proof -
  have "sql_where (duplicate_condition r b) \<longleftrightarrow>
          b_email b = bc_email r \<and>
          (if truthy (bc_event_id r) then b_event_id b = bc_event_id r
           else b_booking_date b = bc_booking_date r \<and> b_booking_time b = bc_booking_time r)"
    for b
    by (auto simp: duplicate_condition_def sql_where_def sql_and_def sql_eq_def truthy_def
          split: option.splits)
  then show ?thesis
    unfolding existing_booking_def find_None_iff by blast
qed

lemma duplicate_rejected:
  "existing_booking s r \<noteq> None \<Longrightarrow>
     create_booking r new_id token s = Inl (HTTPException 400 DuplicateBooking)"
  by (auto simp: create_booking_def)

lemma used_email_never_inserted:
  assumes "b \<in> set (bookings s)" and "b_email b = bc_email r"
  shows "create_booking r new_id token s \<noteq> Inr x"
proof -
  have "\<not> booking_constraints s (new_booking r new_id token)"
    using assms by (force simp: booking_constraints_def new_booking_def)
  then show ?thesis
    by (auto simp: create_booking_def insert_booking_def split: option.splits)
qed

text \<open>
  Claim C3. A request is a duplicate exactly when a stored booking has its e-mail and its
  special event (or, without an event, its date and time); a request whose e-mail is
  booked for another event should be accepted and stored. The duplicate check does let it
  pass, but column \<open>email\<close> of table bookings is declared unique, so the insert fails: the
  guest of event 1 who asks for event 2, with room left, gets an IntegrityError and nothing
  is stored.
\<close>

theorem same_email_other_event_not_stored:
  "existing_booking events_db (request ''ada@example.org'' (Some 2) 739935 None 2) = None
   \<and> capacity_error events_db (request ''ada@example.org'' (Some 2) 739935 None 2) = None
   \<and> create_booking (request ''ada@example.org'' (Some 2) 739935 None 2) 3 ''token-3''
       events_db
     = Inl IntegrityError"
  by (simp add: create_booking_def events_db_def concert_def tasting_def admission_defs)

section \<open>Booking admission: failures and guest counts\<close>




text \<open>
  The same happens, whatever the e-mail, when the request names a special event that does
  not exist: the foreign key of \<open>event_id\<close> refuses the row.
\<close>

lemma unknown_event_not_stored:
  "existing_booking events_db (request ''cleo@example.org'' (Some 7) 739935 None 0) = None
   \<and> capacity_error events_db (request ''cleo@example.org'' (Some 7) 739935 None 0) = None
   \<and> create_booking (request ''cleo@example.org'' (Some 7) 739935 None 0) 3 ''token-3''
       events_db
     = Inl IntegrityError"
  by (simp add: create_booking_def events_db_def concert_def tasting_def admission_defs)

section \<open>Cancellation\<close>

lemma filter_distinct_key_remove1:
  "distinct (map f xs) \<Longrightarrow> b \<in> set xs \<Longrightarrow> filter (\<lambda>x. f x \<noteq> f b) xs = remove1 b xs"
proof (induction xs)
  case Nil
  then show ?case by simp
next
  case (Cons a xs)
  show ?case
  proof (cases "a = b")
    case True
    with Cons.prems have "f b \<notin> f ` set xs" by simp
    then have "\<forall>x\<in>set xs. f x \<noteq> f b" by (metis imageI)
    then have "filter (\<lambda>x. f x \<noteq> f b) xs = xs" by (simp add: filter_id_conv)
    with True show ?thesis by simp
  next
    case False
    with Cons.prems have "b \<in> set xs" and "f a \<noteq> f b" by auto
    with Cons False show ?thesis by simp
  qed
qed

lemma cancel_booking_not_found:
  assumes "\<forall>b\<in>set (bookings s). b_cancellation_token b \<noteq> token"
  shows "cancel_booking token s = Inl (HTTPException 404 InvalidToken)"
proof -
  from assms
  have "find (\<lambda>b. sql_where (sql_eq (Some (b_cancellation_token b)) (Some token)))
               (bookings s) = None"
    by (simp add: find_None_iff sql_where_def sql_eq_def)
  then show ?thesis by (simp add: cancel_booking_def)
qed

text \<open>
  Claim C5. In a table whose ids and tokens are unique (the primary key and the unique
  constraint of models.py), cancelling with the token of a stored booking succeeds and
  removes that booking and nothing else, and a second call with the same token is answered
  with HTTP 404; with a token that no stored booking has, the answer is HTTP 404 and no
  new state is produced.
\<close>

theorem cancel_booking_by_token:
  assumes "distinct (map b_id (bookings s))"
    and "distinct (map b_cancellation_token (bookings s))"
  shows "if \<exists>b\<in>set (bookings s). b_cancellation_token b = token
         then \<exists>b s'. b \<in> set (bookings s) \<and> b_cancellation_token b = token \<and>
                cancel_booking token s = Inr s' \<and>
                bookings s' = remove1 b (bookings s) \<and>
                length (bookings s') + 1 = length (bookings s) \<and>
                special_events s' = special_events s \<and>
                cancel_booking token s' = Inl (HTTPException 404 InvalidToken)
         else cancel_booking token s = Inl (HTTPException 404 InvalidToken)"
proof (cases "\<exists>b\<in>set (bookings s). b_cancellation_token b = token")
  case False
  then show ?thesis using cancel_booking_not_found [of s token] by simp
next
  case True
  let ?P = "\<lambda>b. sql_where (sql_eq (Some (b_cancellation_token b)) (Some token))"
  have P: "\<And>b. ?P b \<longleftrightarrow> b_cancellation_token b = token"
    by (simp add: sql_where_def sql_eq_def)
  from True obtain b where fb: "find ?P (bookings s) = Some b"
    by (cases "find ?P (bookings s)") (auto simp: find_None_iff P)
  then have b: "b \<in> set (bookings s)" "b_cancellation_token b = token"
    by (auto simp: find_Some_iff P)
  let ?s' = "delete_booking b s"
  have r: "cancel_booking token s = Inr ?s'"
    using fb by (simp add: cancel_booking_def)
  have bs: "bookings ?s' = remove1 b (bookings s)"
    using filter_distinct_key_remove1 [OF assms(1) b(1)] by (simp add: delete_booking_def)
  have len: "length (bookings ?s') + 1 = length (bookings s)"
    using b(1) by (simp add: bs length_remove1) (metis length_pos_if_in_set Suc_pred)
  have ev: "special_events ?s' = special_events s" by (simp add: delete_booking_def)
  have "distinct (bookings s)" using assms(1) by (rule distinct_map [THEN iffD1, THEN conjunct1])
  then have "set (bookings ?s') = set (bookings s) - {b}" by (simp add: bs)
  moreover have "\<forall>x\<in>set (bookings s) - {b}. b_cancellation_token x \<noteq> token"
    using assms(2) b by (auto simp: distinct_map inj_on_def)
  ultimately have again: "cancel_booking token ?s' = Inl (HTTPException 404 InvalidToken)"
    by (intro cancel_booking_not_found) simp
  show ?thesis using True b r bs len ev again by auto
qed

lemmas example_defs =
  events_db_def closed_tasting_db_def concert_def tasting_def admin_def new_booking_def
  request_def sunday_def wednesday_def

theorem cancel_booking_by_token_witness:
  "distinct (map b_id (bookings events_db))
   \<and> distinct (map b_cancellation_token (bookings events_db))
   \<and> (\<exists>b\<in>set (bookings events_db). b_cancellation_token b = ''token-1'')
   \<and> (\<exists>b s'. b \<in> set (bookings events_db) \<and> b_cancellation_token b = ''token-1'' \<and>
          cancel_booking ''token-1'' events_db = Inr s' \<and>
          bookings s' = remove1 b (bookings events_db) \<and>
          length (bookings s') + 1 = length (bookings events_db) \<and>
          special_events s' = special_events events_db \<and>
          cancel_booking ''token-1'' s' = Inl (HTTPException 404 InvalidToken))"
proof -
  have h1: "distinct (map b_id (bookings events_db))"
    by (simp add: example_defs)
  have h2: "distinct (map b_cancellation_token (bookings events_db))"
    by (simp add: example_defs)
  have h3: "\<exists>b\<in>set (bookings events_db). b_cancellation_token b = ''token-1''"
    by (simp add: example_defs)
  from cancel_booking_by_token [OF h1 h2, of "''token-1''"] h1 h2 h3 show ?thesis
    by simp
qed

lemma cancel_booking_example:
  "map b_id (bookings events_db) = [1, 2]
   \<and> map_sum id (\<lambda>s'. map b_id (bookings s')) (cancel_booking ''token-1'' events_db) = Inr [2]"
  by (simp add: cancel_booking_def delete_booking_def sql_where_def sql_eq_def example_defs)

section \<open>Deleting a special event\<close>

text \<open>
  Claim C6. For an authorised administrator, deleting the special event with a given id
  returns it and leaves exactly the special events with another id and exactly the
  bookings that do not reference that id, each unchanged and in the same order; when no
  special event has the id the answer is HTTP 404 and no new state is produced.
\<close>

theorem delete_special_event_cascade:
  assumes "\<not> wrong_credentials ADMIN_PASSWORD c"
  shows "if \<exists>e\<in>set (special_events s). se_id e = event_id
         then \<exists>event s'. delete_special_event ADMIN_PASSWORD c event_id s = Inr (event, s') \<and>
                event \<in> set (special_events s) \<and> se_id event = event_id \<and>
                special_events s' = filter (\<lambda>e. se_id e \<noteq> event_id) (special_events s) \<and>
                bookings s' = filter (\<lambda>b. b_event_id b \<noteq> Some event_id) (bookings s)
         else delete_special_event ADMIN_PASSWORD c event_id s =
                Inl (HTTPException 404 EventNotFound)"
proof -
  let ?P = "\<lambda>e. sql_where (sql_eq (Some (se_id e)) (Some event_id))"
  have P: "\<And>e. ?P e \<longleftrightarrow> se_id e = event_id"
    by (simp add: sql_where_def sql_eq_def)
  have Q: "\<And>b. sql_where (sql_eq (b_event_id b) (Some event_id)) \<longleftrightarrow>
                b_event_id b = Some event_id"
    by (simp add: sql_where_def sql_eq_def split: option.splits)
  show ?thesis
  proof (cases "find ?P (special_events s)")
    case None
    then have "\<not> (\<exists>e\<in>set (special_events s). se_id e = event_id)"
      by (simp add: find_None_iff P)
    then show ?thesis using None assms by (simp add: delete_special_event_def)
  next
    case (Some event)
    then have ev: "event \<in> set (special_events s)" "se_id event = event_id"
      by (auto simp: find_Some_iff P)
    then have "\<exists>e\<in>set (special_events s). se_id e = event_id" by blast
    then show ?thesis using Some assms ev by (simp add: delete_special_event_def Q)
  qed
qed

theorem delete_special_event_cascade_witness:
  "\<not> wrong_credentials (Some ''secret'') admin
   \<and> (\<exists>e\<in>set (special_events events_db). se_id e = 1)
   \<and> (\<exists>event s'. delete_special_event (Some ''secret'') admin 1 events_db = Inr (event, s') \<and>
          event \<in> set (special_events events_db) \<and> se_id event = 1 \<and>
          special_events s' = [tasting] \<and>
          map b_id (bookings s') = [2])
   \<and> delete_special_event (Some ''secret'') admin 7 events_db
       = Inl (HTTPException 404 EventNotFound)"
proof -
  have h: "\<not> wrong_credentials (Some ''secret'') admin"
    by (simp add: wrong_credentials_def username_def password_def admin_def)
  have e: "\<exists>e\<in>set (special_events events_db). se_id e = 1"
    by (simp add: example_defs)
  have n: "\<not> (\<exists>e\<in>set (special_events events_db). se_id e = 7)"
    by (simp add: example_defs)
  have f: "filter (\<lambda>e. se_id e \<noteq> 1) (special_events events_db) = [tasting]"
    by (simp add: example_defs)
  have g: "map b_id (filter (\<lambda>b. b_event_id b \<noteq> Some 1) (bookings events_db)) = [2]"
    by (simp add: example_defs)
  from delete_special_event_cascade [OF h, of events_db 1]
       delete_special_event_cascade [OF h, of events_db 7] h e n f g
  show ?thesis by auto
qed

section \<open>Administration without a configured password\<close>

text \<open>
  Claim C7, as amended. When the admin password is absent from the configuration, every
  admin endpoint rejects every request, whatever the credentials: the bookings listing
  with HTTP 500, and the PDF export and the creation, listing and deletion of special
  events with HTTP 401.
\<close>

theorem admin_endpoints_without_password:
  "get_all_bookings None c s skip limit event_date event_time event_id =
     Inl (HTTPException 500 AdminPasswordMissing)
   \<and> export_bookings_to_pdf None c s event_date event_time event_id export_limit =
       Inl (HTTPException 401 InvalidCredentials)
   \<and> create_special_event None c ev new_id s = Inl (HTTPException 401 InvalidCredentials)
   \<and> read_special_events None c s = Inl (HTTPException 401 InvalidCredentials)
   \<and> delete_special_event None c k s = Inl (HTTPException 401 InvalidCredentials)"
  by (simp add: get_all_bookings_def export_bookings_to_pdf_def create_special_event_def
        read_special_events_def delete_special_event_def not_configured_def
        wrong_credentials_def unauthorized_def)

theorem admin_endpoints_without_password_witness:
  "server_error (get_all_bookings None admin events_db 0 10 None None None)
   \<and> export_bookings_to_pdf None admin events_db None None None 1000 =
       Inl (HTTPException 401 InvalidCredentials)
   \<and> read_special_events None admin events_db = Inl (HTTPException 401 InvalidCredentials)
   \<and> delete_special_event None admin 1 events_db = Inl (HTTPException 401 InvalidCredentials)"
  using admin_endpoints_without_password [of admin events_db 0 10 None None None 1000 _ _ 1]
  by (simp add: server_error_def status_code_def)

text \<open>
  The claim as stated asks for a server error from each of them; the PDF export answers 401.
\<close>

theorem pdf_export_without_password_counterexample:
  "\<not> server_error (export_bookings_to_pdf None admin events_db None None None 1000)"
  by (simp add: export_bookings_to_pdf_def not_configured_def unauthorized_def
        server_error_def status_code_def)

section \<open>Filters of the bookings listing\<close>

text \<open>
  Claim C10. In the bookings listing, a request that gives only \<open>event_date\<close>, or only
  \<open>event_time\<close>, and no \<open>event_id\<close>, gets the answer of the request without any filter:
  for an authorised administrator, the count of all bookings and the page cut from all of
  them.
\<close>

theorem single_date_or_time_is_no_filter:
  "get_all_bookings ADMIN_PASSWORD c s skip limit (Some d) None None =
     get_all_bookings ADMIN_PASSWORD c s skip limit None None None
   \<and> get_all_bookings ADMIN_PASSWORD c s skip limit None (Some t) None =
       get_all_bookings ADMIN_PASSWORD c s skip limit None None None
   \<and> (\<not> not_configured ADMIN_PASSWORD \<and> \<not> wrong_credentials ADMIN_PASSWORD c \<and>
        0 \<le> skip \<and> 0 \<le> limit \<longrightarrow>
        get_all_bookings ADMIN_PASSWORD c s skip limit None None None =
          Inr (length (bookings s),
               take (nat limit) (drop (nat skip) (rev (sort_key booking_order (bookings s))))))"
  by (simp add: get_all_bookings_def admin_filter_def truthy_def Let_def)

theorem single_date_or_time_is_no_filter_witness:
  "\<not> not_configured (Some ''secret'') \<and> \<not> wrong_credentials (Some ''secret'') admin
   \<and> map_sum id (map_prod id (map b_booking_date))
       (get_all_bookings (Some ''secret'') admin events_db 0 10 (Some sunday) None None)
     = Inr (2, [739930, sunday])
   \<and> map_sum id (map_prod id (map b_booking_date))
       (get_all_bookings (Some ''secret'') admin events_db 0 10 (Some sunday)
          (Some (Time 12 0 0 0)) None)
     = Inr (1, [sunday])"
proof -
  have h1: "\<not> not_configured (Some ''secret'')"
    by (simp add: not_configured_def)
  have h2: "\<not> wrong_credentials (Some ''secret'') admin"
    by (simp add: wrong_credentials_def username_def password_def admin_def)
  have o: "map b_booking_date (rev (sort_key booking_order (bookings events_db)))
             = [739930, sunday]"
    by (simp add: example_defs booking_order_def nulls_last_def time_key_def)
  have f: "map_sum id (map_prod id (map b_booking_date))
             (get_all_bookings (Some ''secret'') admin events_db 0 10 (Some sunday)
                (Some (Time 12 0 0 0)) None)
           = Inr (1, [sunday])"
    using h1 h2
    by (simp add: get_all_bookings_def admin_filter_def truthy_def Let_def sql_where_def
          sql_and_def sql_eq_def example_defs)
  from single_date_or_time_is_no_filter
         [of "Some ''secret''" admin events_db 0 10 sunday "Time 12 0 0 0"] h1 h2 o f
  show ?thesis by (simp add: take_map drop_map example_defs)
qed

section \<open>The closed flag\<close>

lemma special_entry_closed: "special_entry (e\<lparr>se_is_closed := x\<rparr>) = special_entry e"
  by (simp add: special_entry_def)

lemma catalog_input_closed:
  "map special_entry (filter (\<lambda>event. today \<le> se_booking_date event)
       (map (\<lambda>e. e\<lparr>se_is_closed := False\<rparr>) xs))
   = map special_entry (filter (\<lambda>event. today \<le> se_booking_date event) xs)"
  by (induction xs) (simp_all add: special_entry_closed)

lemma get_bookable_events_closed:
  "get_bookable_events today (without_closed_flags s) = get_bookable_events today s"
  by (simp add: get_bookable_events_def without_closed_flags_def catalog_input_closed)

lemma event_ids_closed:
  "map se_id (special_events (without_closed_flags s)) = map se_id (special_events s)"
  by (simp add: without_closed_flags_def comp_def)

lemma booking_constraints_closed:
  "booking_constraints (without_closed_flags s) b = booking_constraints s b"
proof -
  have "bookings (without_closed_flags s) = bookings s"
    by (simp add: without_closed_flags_def)
  then show ?thesis
    unfolding booking_constraints_def event_ids_closed by simp
qed

lemma create_booking_closed:
  "map_sum id (map_prod id without_closed_flags) (create_booking r new_id token (without_closed_flags s))
   = map_sum id (map_prod id without_closed_flags) (create_booking r new_id token s)"
proof -
  have b: "bookings (without_closed_flags s) = bookings s"
    by (simp add: without_closed_flags_def)
  have 1: "existing_booking (without_closed_flags s) r = existing_booking s r"
    by (simp add: existing_booking_def b)
  have 2: "capacity_error (without_closed_flags s) r = capacity_error s r"
    by (simp add: capacity_error_def booked_guests_def b)
  have 3: "without_closed_flags (without_closed_flags s\<lparr>bookings := bookings s @ [x]\<rparr>)
            = without_closed_flags (s\<lparr>bookings := bookings s @ [x]\<rparr>)" for x
    by (simp add: without_closed_flags_def comp_def)
  show ?thesis
    by (simp add: create_booking_def 1 2 insert_booking_def booking_constraints_closed b 3
          split: option.splits)
qed

text \<open>
  Claim C8. The closed flag of a special event is read neither by the event catalog nor by
  booking admission: in two states that differ only in closed flags the catalog is the
  same, every booking request has the same outcome (the same error, or the same stored
  record), and the resulting states again differ only in closed flags.
\<close>

theorem is_closed_never_consulted:
  assumes "without_closed_flags s = without_closed_flags s'"
  shows "get_bookable_events today s = get_bookable_events today s'
       \<and> outcome (create_booking r new_id token s) = outcome (create_booking r new_id token s')
       \<and> map_sum id (map_prod id without_closed_flags) (create_booking r new_id token s)
         = map_sum id (map_prod id without_closed_flags) (create_booking r new_id token s')"
proof -
  have 1: "get_bookable_events today s = get_bookable_events today s'"
    using get_bookable_events_closed[of today s] get_bookable_events_closed[of today s'] assms
    by simp
  have 3: "map_sum id (map_prod id without_closed_flags) (create_booking r new_id token s)
         = map_sum id (map_prod id without_closed_flags) (create_booking r new_id token s')"
    using create_booking_closed[of r new_id token s] create_booking_closed[of r new_id token s'] assms
    by simp
  have "outcome x = map_sum id fst (map_sum id (map_prod id without_closed_flags) x)"
    for x :: "failure + booking \<times> db"
    by (cases x) (auto simp: outcome_def)
  with 3 have 2: "outcome (create_booking r new_id token s) = outcome (create_booking r new_id token s')"
    by simp
  show ?thesis using 1 2 3 by simp
qed

theorem is_closed_never_consulted_witness:
  "without_closed_flags events_db = without_closed_flags closed_tasting_db
   \<and> events_db \<noteq> closed_tasting_db
   \<and> get_bookable_events wednesday events_db = get_bookable_events wednesday closed_tasting_db
   \<and> outcome (create_booking (request ''cleo@example.org'' (Some 2) 739935 None 2)
                3 ''token-3'' closed_tasting_db)
     = Inr (new_booking (request ''cleo@example.org'' (Some 2) 739935 None 2) 3 ''token-3'')"
proof -
  let ?r = "request ''cleo@example.org'' (Some 2) 739935 None 2"
  have h: "without_closed_flags events_db = without_closed_flags closed_tasting_db"
    by (simp add: without_closed_flags_def example_defs)
  have d: "events_db \<noteq> closed_tasting_db"
    by (simp add: example_defs)
  have o: "outcome (create_booking ?r 3 ''token-3'' events_db) = Inr (new_booking ?r 3 ''token-3'')"
    by (simp add: outcome_def create_booking_def events_db_def concert_def tasting_def
          admission_defs)
  from is_closed_never_consulted [OF h, of wednesday ?r 3 "''token-3''"] h d o
  show ?thesis by simp
qed

section \<open>Event catalog\<close>

lemma next_sunday_mod: "next_sunday d mod 7 = 0"
  by (simp add: next_sunday_def mod_add_right_eq)

lemma next_sunday_bounds: "d \<le> next_sunday d \<and> next_sunday d < d + 7"
proof -
  have "0 \<le> (- d) mod 7" and "(- d) mod 7 < 7" by simp_all
  then show ?thesis by (simp add: next_sunday_def)
qed

lemma weekday_sunday_iff: "weekday d = 6 \<longleftrightarrow> d mod 7 = 0"
  unfolding weekday_def by presburger

lemma sunday_unique:
  fixes n e :: int
  assumes "d \<le> e" "e < d + 7" "e mod 7 = 0" "d \<le> n" "n < d + 7" "n mod 7 = 0"
  shows "n = e"
proof -
  from assms(3,6) have "7 dvd (n - e)" by (simp add: mod_eq_0_iff_dvd)
  then obtain k where k: "n - e = 7 * k" ..
  from assms(1,2,4,5) have "- 7 < n - e" "n - e < 7" by simp_all
  with k have "k = 0" by simp
  with k show ?thesis by simp
qed

lemma next_sunday_unique:
  assumes "d \<le> e" "e < d + 7" "e mod 7 = 0"
  shows "next_sunday d = e"
  using sunday_unique [OF assms] next_sunday_bounds [of d] next_sunday_mod [of d] by simp

lemma weekday_next_sunday: "weekday (next_sunday d) = 6"
  by (simp add: weekday_sunday_iff next_sunday_mod)

lemma next_sunday_of_sunday: "weekday d = 6 \<Longrightarrow> next_sunday d = d"
  by (rule next_sunday_unique) (simp_all add: weekday_sunday_iff)

lemma next_sunday_after_sunday:
  assumes "weekday d = 6"
  shows "next_sunday (d + 1) = d + 7"
proof (rule next_sunday_unique)
  from assms have "d mod 7 = 0" by (simp add: weekday_sunday_iff)
  then show "(d + 7) mod 7 = 0" by simp
qed simp_all

lemma next_sunday_skip:
  assumes "weekday d \<noteq> 6"
  shows "next_sunday (d + 1) = next_sunday d"
proof (rule next_sunday_unique)
  from assms have "d mod 7 \<noteq> 0" by (simp add: weekday_sunday_iff)
  with next_sunday_mod [of d] have "next_sunday d \<noteq> d" by auto
  with next_sunday_bounds [of d] show "d + 1 \<le> next_sunday d" by simp
  from next_sunday_bounds [of d] show "next_sunday d < d + 1 + 7" by simp
  show "next_sunday d mod 7 = 0" by (rule next_sunday_mod)
qed

lemma next_sunday_least:
  assumes "d \<le> e" and "weekday e = 6"
  shows "next_sunday d \<le> e"
proof (rule ccontr)
  assume "\<not> next_sunday d \<le> e"
  with next_sunday_bounds [of d] assms(1) have "d \<le> e" "e < d + 7" by simp_all
  moreover from assms(2) have "e mod 7 = 0" by (simp add: weekday_sunday_iff)
  ultimately have "next_sunday d = e" by (rule next_sunday_unique)
  with \<open>\<not> next_sunday d \<le> e\<close> show False by simp
qed

lemma brunches_Suc: "brunches first (Suc n) = brunch_entry first # brunches (first + 7) n"
proof -
  have "[0..<Suc n] = 0 # map Suc [0..<n]"
    by (simp add: upt_conv_Cons map_Suc_upt del: upt_Suc)
  then show ?thesis
    by (simp add: brunches_def comp_def algebra_simps del: upt_Suc)
qed

lemma brunch_loop_result:
  "sundays_found \<le> 8 \<Longrightarrow> date_min \<le> today + int day_offset \<Longrightarrow>
   (sundays_found < 8 \<longrightarrow>
      next_sunday (today + int day_offset) + 7 * (7 - int sundays_found) \<le> date_max) \<Longrightarrow>
   brunch_loop today sundays_found day_offset events =
     Inr (events @ brunches (next_sunday (today + int day_offset)) (8 - sundays_found))"
proof (induction today sundays_found day_offset events rule: brunch_loop.induct)
  case (1 today sundays_found day_offset events)
  let ?d = "today + int day_offset"
  show ?case
  proof (cases "sundays_found < 8")
    case False
    with "1.prems" have "sundays_found = 8" by simp
    then show ?thesis by (simp add: brunches_def)
  next
    case True
    with "1.prems" have bound: "next_sunday ?d + 7 * (7 - int sundays_found) \<le> date_max"
      by simp
    have "?d \<le> next_sunday ?d" using next_sunday_bounds by blast
    with bound True have le: "?d \<le> date_max" by simp
    with "1.prems" have add: "add_days today day_offset = Inr ?d"
      by (simp add: add_days_def)
    have min': "date_min \<le> today + int (day_offset + 1)" using "1.prems" by simp
    have eq: "today + int (day_offset + 1) = ?d + 1" by simp
    from True obtain m where m: "8 - sundays_found = Suc m" "8 - (sundays_found + 1) = m"
      by (cases "8 - sundays_found") auto
    show ?thesis
    proof (cases "weekday ?d = 6")
      case sun: True
      have ns: "next_sunday ?d = ?d" "next_sunday (?d + 1) = ?d + 7"
        using sun by (simp_all add: next_sunday_of_sunday next_sunday_after_sunday)
      have "brunch_loop today (sundays_found + 1) (day_offset + 1)
              (events @ [brunch_entry ?d]) =
            Inr ((events @ [brunch_entry ?d]) @
                 brunches (next_sunday (today + int (day_offset + 1))) (8 - (sundays_found + 1)))"
      proof (rule "1.IH"(1) [OF True add sun])
        show "sundays_found + 1 \<le> 8" using True by simp
        show "date_min \<le> today + int (day_offset + 1)" by (rule min')
        show "sundays_found + 1 < 8 \<longrightarrow>
                next_sunday (today + int (day_offset + 1)) + 7 * (7 - int (sundays_found + 1))
                  \<le> date_max"
          using bound ns unfolding eq by simp
      qed
      then have "brunch_loop today (sundays_found + 1) (day_offset + 1)
              (events @ [brunch_entry ?d]) =
            Inr (events @ brunches (next_sunday ?d) (8 - sundays_found))"
        unfolding eq m by (simp add: ns brunches_Suc)
      then show ?thesis
        using True add sun by (subst brunch_loop.simps) simp
    next
      case nosun: False
      have ns: "next_sunday (?d + 1) = next_sunday ?d"
        using nosun by (rule next_sunday_skip)
      have "brunch_loop today sundays_found (day_offset + 1) events =
            Inr (events @
                 brunches (next_sunday (today + int (day_offset + 1))) (8 - sundays_found))"
      proof (rule "1.IH"(2) [OF True add nosun])
        show "sundays_found \<le> 8" using True by simp
        show "date_min \<le> today + int (day_offset + 1)" by (rule min')
        show "sundays_found < 8 \<longrightarrow>
                next_sunday (today + int (day_offset + 1)) + 7 * (7 - int sundays_found)
                  \<le> date_max"
          using bound ns unfolding eq by simp
      qed
      then show ?thesis
        using True add nosun unfolding eq ns by (subst brunch_loop.simps) simp
    qed
  qed
qed



lemma brunch_loop_overflow:
  "sundays_found < 8 \<Longrightarrow> date_min \<le> today + int day_offset \<Longrightarrow>
   date_max < next_sunday (today + int day_offset) + 7 * (7 - int sundays_found) \<Longrightarrow>
   brunch_loop today sundays_found day_offset events = Inl OverflowError"
proof (induction today sundays_found day_offset events rule: brunch_loop.induct)
  case (1 today sundays_found day_offset events)
  let ?d = "today + int day_offset"
  note found = \<open>sundays_found < 8\<close>
  note bound = \<open>date_max < next_sunday ?d + 7 * (7 - int sundays_found)\<close>
  show ?case
  proof (cases "?d \<le> date_max")
    case False
    then have "add_days today day_offset = Inl OverflowError"
      by (simp add: add_days_def)
    then show ?thesis using found by (subst brunch_loop.simps) simp
  next
    case True
    with "1.prems" have add: "add_days today day_offset = Inr ?d"
      by (simp add: add_days_def)
    have min': "date_min \<le> today + int (day_offset + 1)" using "1.prems" by simp
    have eq: "today + int (day_offset + 1) = ?d + 1" by simp
    show ?thesis
    proof (cases "weekday ?d = 6")
      case sun: True
      have ns: "next_sunday ?d = ?d" "next_sunday (?d + 1) = ?d + 7"
        using sun by (simp_all add: next_sunday_of_sunday next_sunday_after_sunday)
      from bound True ns have less: "sundays_found + 1 < 8" by (cases "sundays_found = 7") auto
      have "brunch_loop today (sundays_found + 1) (day_offset + 1)
              (events @ [brunch_entry ?d]) = Inl OverflowError"
      proof (rule "1.IH"(1) [OF found add sun less min'])
        show "date_max < next_sunday (today + int (day_offset + 1)) +
                           7 * (7 - int (sundays_found + 1))"
          using bound ns unfolding eq by simp
      qed
      then show ?thesis using found add sun by (subst brunch_loop.simps) simp
    next
      case nosun: False
      have ns: "next_sunday (?d + 1) = next_sunday ?d"
        using nosun by (rule next_sunday_skip)
      have "brunch_loop today sundays_found (day_offset + 1) events = Inl OverflowError"
      proof (rule "1.IH"(2) [OF found add nosun found min'])
        show "date_max < next_sunday (today + int (day_offset + 1)) +
                           7 * (7 - int sundays_found)"
          using bound ns unfolding eq by simp
      qed
      then show ?thesis using found add nosun by (subst brunch_loop.simps) simp
    qed
  qed
qed

lemma sort_key_event_special:
  "sort_key_event (special_entry e) =
     (se_booking_date e,
      case se_booking_time e of None \<Rightarrow> time_key (Time 0 0 0 0) | Some t \<Rightarrow> time_key t)"
  by (simp add: special_entry_def)

lemma sort_key_event_brunch:
  "sort_key_event (brunch_entry d) = (d, time_key (Time 12 0 0 0))"
  by (simp add: brunch_entry_def)

lemma sorted_brunches: "sorted (map sort_key_event (brunches first n))"
proof -
  have "sorted_wrt (\<lambda>i j. sort_key_event (brunch_entry (first + 7 * int i))
                          \<le> sort_key_event (brunch_entry (first + 7 * int j))) [0..<n]"
    by (rule sorted_wrt_mono_rel [of _ "(\<le>)"]) (auto simp: sort_key_event_brunch)
  then show ?thesis
    by (simp add: brunches_def sorted_map sorted_wrt_map)
qed

lemma filter_brunches:
  "filter is_brunch (brunches first n) = brunches first n"
  "filter (\<lambda>e. \<not> is_brunch e) (brunches first n) = []"
  by (simp_all add: brunches_def brunch_entry_def filter_map comp_def)

lemma filter_specials:
  "filter is_brunch (map special_entry xs) = []"
  "filter (\<lambda>e. \<not> is_brunch e) (map special_entry xs) = map special_entry xs"
  by (simp_all add: special_entry_def filter_map comp_def)

lemma get_bookable_events_result:
  assumes "date_min \<le> today" and "next_sunday today + 49 \<le> date_max"
  shows "get_bookable_events today s =
           Inr (sort_key sort_key_event
                  (map special_entry
                     (filter (\<lambda>event. today \<le> se_booking_date event) (special_events s))
                   @ brunches (next_sunday today) 8))"
proof -
  have "brunch_loop today 0 0 events = Inr (events @ brunches (next_sunday today) 8)" for events
    using brunch_loop_result [of 0 today 0 events] assms by simp
  then show ?thesis by (simp add: get_bookable_events_def)
qed

lemma get_bookable_events_overflow:
  assumes "date_min \<le> today" and "date_max < next_sunday today + 49"
  shows "get_bookable_events today s = Inl OverflowError"
proof -
  have "brunch_loop today 0 0 events = Inl OverflowError" for events
    using brunch_loop_overflow [of 0 today 0 events] assms by simp
  then show ?thesis by (simp add: get_bookable_events_def)
qed

text \<open>
  Claim C4. For a current date from which eight Sundays are still representable dates, the
  catalog is returned and consists of exactly eight brunch entries, for the first Sunday
  on or after today and the seven Sundays that follow, each without id and with the slots
  12:00 and 13:30, together with exactly the entries of the stored special events dated
  today or later; the list is sorted by date and then time, a brunch entry counting with
  its first slot and an entry without time with midnight.
\<close>

theorem bookable_events_catalog:
  assumes "date_min \<le> today" and "next_sunday today + 49 \<le> date_max"
  shows "\<exists>events. get_bookable_events today s = Inr events
     \<and> filter is_brunch events =
         map (\<lambda>k. BrunchEntry (next_sunday today + 7 * int k) [Time 12 0 0 0, Time 13 30 0 0])
           [0..<8]
     \<and> mset (filter (\<lambda>e. \<not> is_brunch e) events) =
         mset (map special_entry
                 (filter (\<lambda>event. today \<le> se_booking_date event) (special_events s)))
     \<and> sorted (map sort_key_event events)
     \<and> weekday (next_sunday today) = 6 \<and> today \<le> next_sunday today
     \<and> next_sunday today < today + 7
     \<and> (\<forall>d slots. entry_id (BrunchEntry d slots) = None)
     \<and> (\<forall>d. sort_key_event (BrunchEntry d [Time 12 0 0 0, Time 13 30 0 0]) = (d, 12, 0, 0, 0))
     \<and> (\<forall>i n d t. sort_key_event (SpecialEntry i n d (Some t)) = (d, time_key t))
     \<and> (\<forall>i n d. sort_key_event (SpecialEntry i n d None) = (d, 0, 0, 0, 0))"
proof -
  let ?specials = "map special_entry
                     (filter (\<lambda>event. today \<le> se_booking_date event) (special_events s))"
  let ?events = "sort_key sort_key_event (?specials @ brunches (next_sunday today) 8)"
  have 1: "get_bookable_events today s = Inr ?events"
    using assms by (rule get_bookable_events_result)
  have "filter is_brunch ?events = sort_key sort_key_event (brunches (next_sunday today) 8)"
    by (simp only: filter_sort filter_append filter_brunches filter_specials append_Nil)
  also have "\<dots> = brunches (next_sunday today) 8"
    by (rule sort_key_id_if_sorted) (rule sorted_brunches)
  finally have 2: "filter is_brunch ?events =
         map (\<lambda>k. BrunchEntry (next_sunday today + 7 * int k) [Time 12 0 0 0, Time 13 30 0 0])
           [0..<8]"
    by (simp only: brunches_def brunch_entry_def)
  have "filter (\<lambda>e. \<not> is_brunch e) ?events = sort_key sort_key_event ?specials"
    by (simp only: filter_sort filter_append filter_brunches filter_specials append_Nil2)
  then have 3: "mset (filter (\<lambda>e. \<not> is_brunch e) ?events) = mset ?specials"
    by (simp only: mset_sort)
  have 4: "sorted (map sort_key_event ?events)" by (rule sorted_sort_key)
  have 5: "weekday (next_sunday today) = 6 \<and> today \<le> next_sunday today
     \<and> next_sunday today < today + 7"
    using weekday_next_sunday next_sunday_bounds by simp
  have 6: "(\<forall>d slots. entry_id (BrunchEntry d slots) = None)
     \<and> (\<forall>d. sort_key_event (BrunchEntry d [Time 12 0 0 0, Time 13 30 0 0]) = (d, 12, 0, 0, 0))
     \<and> (\<forall>i n d t. sort_key_event (SpecialEntry i n d (Some t)) = (d, time_key t))
     \<and> (\<forall>i n d. sort_key_event (SpecialEntry i n d None) = (d, 0, 0, 0, 0))"
    by (simp add: time_key_def)
  from 1 2 3 4 5 6 show ?thesis by blast
qed

theorem bookable_events_catalog_witness:
  "date_min \<le> wednesday \<and> next_sunday wednesday + 49 \<le> date_max
   \<and> next_sunday wednesday = sunday
   \<and> (\<exists>events. get_bookable_events wednesday closed_tasting_db = Inr events
        \<and> filter is_brunch events =
            map (\<lambda>k. BrunchEntry (sunday + 7 * int k) [Time 12 0 0 0, Time 13 30 0 0]) [0..<8]
        \<and> mset (filter (\<lambda>e. \<not> is_brunch e) events) =
            {# SpecialEntry 1 ''Concert'' 739930 (Some (Time 21 0 0 0)),
               SpecialEntry 2 ''Tasting'' 739935 None #}
        \<and> sorted (map sort_key_event events))"
proof -
  have h1: "date_min \<le> wednesday" by (simp add: date_min_def wednesday_def)
  have n: "next_sunday wednesday = sunday"
    by (simp add: next_sunday_def wednesday_def sunday_def)
  have h2: "next_sunday wednesday + 49 \<le> date_max"
    by (simp add: n sunday_def date_max_def)
  have e: "map special_entry
             (filter (\<lambda>event. wednesday \<le> se_booking_date event)
                (special_events closed_tasting_db))
           = [SpecialEntry 1 ''Concert'' 739930 (Some (Time 21 0 0 0)),
              SpecialEntry 2 ''Tasting'' 739935 None]"
    by (simp add: closed_tasting_db_def wednesday_def special_entry_def)
  from bookable_events_catalog [OF h1 h2, of closed_tasting_db] h1 h2 n e
  show ?thesis by auto
qed

text \<open>
  When fewer than eight Sundays remain before \<open>date.max\<close> the loop raises OverflowError
  (lemma \<open>get_bookable_events_overflow\<close>). The catalog of a Wednesday with two special events,
  one of them closed and without a time on a Sunday:
\<close>

lemma catalog_example:
  "get_bookable_events wednesday closed_tasting_db =
     Inr [BrunchEntry 739928 [Time 12 0 0 0, Time 13 30 0 0],
          SpecialEntry 1 ''Concert'' 739930 (Some (Time 21 0 0 0)),
          SpecialEntry 2 ''Tasting'' 739935 None,
          BrunchEntry 739935 [Time 12 0 0 0, Time 13 30 0 0],
          BrunchEntry 739942 [Time 12 0 0 0, Time 13 30 0 0],
          BrunchEntry 739949 [Time 12 0 0 0, Time 13 30 0 0],
          BrunchEntry 739956 [Time 12 0 0 0, Time 13 30 0 0],
          BrunchEntry 739963 [Time 12 0 0 0, Time 13 30 0 0],
          BrunchEntry 739970 [Time 12 0 0 0, Time 13 30 0 0],
          BrunchEntry 739977 [Time 12 0 0 0, Time 13 30 0 0]]"
  by code_simp

end
